theory Spec2Isabelle
  imports Main
begin

section \<open>Python values\<close>

text \<open>
  A Python \<^verbatim>\<open>str\<close> is a sequence of Unicode code points, and \<^verbatim>\<open>len\<close> counts code
  points; a string is therefore a list of natural numbers, one per code point.
  \<open>str\<close> turns an ASCII literal of the source into that representation.
\<close>

type_synonym pystr = "nat list"

definition str :: "string \<Rightarrow> pystr" where
  "str s = map of_char s"

text \<open>
  The values that cross the gateway: JSON-like data (\<open>PDict\<close> is a \<^verbatim>\<open>dict\<close> with string
  keys, in insertion order) and plain objects read by attribute (\<open>PObj\<close>), which is how
  the backend's query result is accessed (\<^verbatim>\<open>result.error\<close>, \<^verbatim>\<open>result.data\<close>).
\<close>

datatype pyval =
    PNone
  | PBool bool
  | PInt int
  | PStr pystr
  | PList "pyval list"
  | PDict "(pystr \<times> pyval) list"
  | PObj "(string \<times> pyval) list"

text \<open>
  Exceptions are values. \<open>HTTPException\<close> carries \<^verbatim>\<open>status_code\<close> and \<^verbatim>\<open>detail\<close>;
  \<open>RuntimeError\<close> and \<open>OSError\<close> carry their message; \<open>HTTPStatusError\<close> carries the
  status code of the response that \<^verbatim>\<open>raise_for_status\<close> refused.
\<close>

datatype pyexn =
    HTTPException nat pyval
  | RequestValidationError
  | RuntimeError pystr
  | AttributeError
  | TypeError
  | KeyError pystr
  | OSError pystr
  | ConnectError
  | HTTPStatusError nat
  | JSONDecodeError

type_synonym 'a result = "pyexn + 'a"

text \<open>Truth value testing, as \<^verbatim>\<open>if x:\<close> performs it.\<close>

fun truthy :: "pyval \<Rightarrow> bool" where
  "truthy PNone = False"
| "truthy (PBool b) = b"
| "truthy (PInt i) = (i \<noteq> 0)"
| "truthy (PStr s) = (s \<noteq> [])"
| "truthy (PList xs) = (xs \<noteq> [])"
| "truthy (PDict kvs) = (kvs \<noteq> [])"
| "truthy (PObj attrs) = True"

text \<open>
  \<^verbatim>\<open>x.get(key)\<close> and \<^verbatim>\<open>x.get(key, default)\<close>: only a \<^verbatim>\<open>dict\<close> has the method; on every
  other value the attribute lookup raises \<^verbatim>\<open>AttributeError\<close>.
\<close>

fun py_get :: "pyval \<Rightarrow> pystr \<Rightarrow> pyval \<Rightarrow> pyval result" where
  "py_get (PDict kvs) k d = Inr (case map_of kvs k of None \<Rightarrow> d | Some v \<Rightarrow> v)"
| "py_get _ k d = Inl AttributeError"

text \<open>
  \<^verbatim>\<open>x[key]\<close> with a string key: \<^verbatim>\<open>KeyError\<close> on a \<^verbatim>\<open>dict\<close> without the key,
  \<^verbatim>\<open>TypeError\<close> on every value that is not a \<^verbatim>\<open>dict\<close> (\<^verbatim>\<open>None\<close> is not subscriptable,
  a \<^verbatim>\<open>str\<close> or \<^verbatim>\<open>list\<close> takes integer indices only).
\<close>

fun py_getitem :: "pyval \<Rightarrow> pystr \<Rightarrow> pyval result" where
  "py_getitem (PDict kvs) k = (case map_of kvs k of None \<Rightarrow> Inl (KeyError k) | Some v \<Rightarrow> Inr v)"
| "py_getitem _ k = Inl TypeError"

text \<open>\<^verbatim>\<open>x.name\<close>: attribute access on an object; \<^verbatim>\<open>AttributeError\<close> otherwise.\<close>

fun py_getattr :: "pyval \<Rightarrow> string \<Rightarrow> pyval result" where
  "py_getattr (PObj attrs) n = (case map_of attrs n of None \<Rightarrow> Inl AttributeError | Some v \<Rightarrow> Inr v)"
| "py_getattr _ n = Inl AttributeError"

section \<open>The framework boundary\<close>

text \<open>
  What the web framework makes of a handler's outcome: a returned value is sent with the
  route's declared status code, an \<^verbatim>\<open>HTTPException\<close> with its own status code, a request
  that fails validation with 422, and any other exception leaves the handler unhandled and
  is answered with 500.
\<close>

fun http_status :: "nat \<Rightarrow> pyval result \<Rightarrow> nat" where
  "http_status declared (Inr v) = declared"
| "http_status declared (Inl (HTTPException code detail)) = code"
| "http_status declared (Inl RequestValidationError) = 422"
| "http_status declared (Inl e) = 500"

definition HTTP_201_CREATED :: nat where "HTTP_201_CREATED = 201"
definition HTTP_400_BAD_REQUEST :: nat where "HTTP_400_BAD_REQUEST = 400"
definition HTTP_404_NOT_FOUND :: nat where "HTTP_404_NOT_FOUND = 404"

section \<open>User service (app/users.py)\<close>

text \<open>
  The backend handle injected into the handlers. The backend is an external collaborator:
  each field is the answer of the backend to one call chain of the source, and the handlers
  return the calls they issued, in order, beside their outcome.
  \<^item> \<open>auth_sign_up\<close>: \<^verbatim>\<open>supabase.auth.sign_up(credentials)\<close>;
  \<^item> \<open>table_insert\<close>: \<^verbatim>\<open>supabase.table(t).insert(row).execute()\<close>;
  \<^item> \<open>table_select_single\<close>: \<^verbatim>\<open>supabase.table(t).select("*").eq(col, v).single().execute()\<close>.
  The calls before \<^verbatim>\<open>execute()\<close> build the query; \<^verbatim>\<open>execute()\<close> sends it.
\<close>

record supabase =
  auth_sign_up :: "pyval \<Rightarrow> pyval"
  table_insert :: "pystr \<Rightarrow> pyval \<Rightarrow> pyval"
  table_select_single :: "pystr \<Rightarrow> pystr \<Rightarrow> pyval \<Rightarrow> pyval"

datatype backend_call =
    SignUp pyval
  | TableInsert pystr pyval
  | TableSelectSingle pystr pystr pyval

text \<open>
  What a query that ends in \<^verbatim>\<open>.single()\<close> answers, given the rows that match its filter:
  the one matching row and no error, or, when the matching rows are not exactly one, no
  data and the error \<open>failure\<close> of the backend.
\<close>

definition single_result :: "pyval list \<Rightarrow> pyval \<Rightarrow> pyval" where
  "single_result matching failure =
     (case matching of
        [row] \<Rightarrow> PObj [(''data'', row), (''error'', PNone)]
      | _ \<Rightarrow> PObj [(''data'', PNone), (''error'', failure)])"

record UserCreate =
  email :: pystr
  password :: pystr

text \<open>
  Validation of the request body against \<^verbatim>\<open>UserCreate\<close>: both fields are required strings,
  and \<^verbatim>\<open>password\<close> has \<^verbatim>\<open>min_length=8\<close>.
\<close>

definition UserCreate_validate :: "pyval \<Rightarrow> UserCreate result" where
  "UserCreate_validate body =
     (case body of
        PDict kvs \<Rightarrow>
          (case (map_of kvs (str ''email''), map_of kvs (str ''password'')) of
             (Some (PStr e), Some (PStr p)) \<Rightarrow>
               if length p < 8 then Inl RequestValidationError
               else Inr \<lparr>email = e, password = p\<rparr>
           | _ \<Rightarrow> Inl RequestValidationError)
      | _ \<Rightarrow> Inl RequestValidationError)"

definition unknown_sign_up_error :: pystr where
  "unknown_sign_up_error = str ''An unknown error occurred during sign up''"

definition credentials :: "UserCreate \<Rightarrow> pyval" where
  "credentials user =
     PDict [(str ''email'', PStr (email user)), (str ''password'', PStr (password user))]"

definition create_user :: "UserCreate \<Rightarrow> supabase \<Rightarrow> pyval result \<times> backend_call list" where
  "create_user user sb =
     (let result = auth_sign_up sb (credentials user);
          calls = [SignUp (credentials user)]
      in case py_get result (str ''error'') PNone of
           Inl ex \<Rightarrow> (Inl ex, calls)
         | Inr error \<Rightarrow>
             if truthy error then
               (case py_get error (str ''message'') (PStr unknown_sign_up_error) of
                  Inl ex \<Rightarrow> (Inl ex, calls)
                | Inr detail \<Rightarrow> (Inl (HTTPException HTTP_400_BAD_REQUEST detail), calls))
             else
               (case py_get result (str ''user'') PNone of
                  Inl ex \<Rightarrow> (Inl ex, calls)
                | Inr user_data \<Rightarrow>
                    (case py_getitem user_data (str ''id'') of
                       Inl ex \<Rightarrow> (Inl ex, calls)
                     | Inr uid \<Rightarrow>
                         (case py_getitem user_data (str ''email'') of
                            Inl ex \<Rightarrow> (Inl ex, calls)
                          | Inr uemail \<Rightarrow>
                              (let row = PDict [(str ''id'', uid), (str ''email'', uemail)];
                                   inserted = table_insert sb (str ''users'') row
                               in (Inr (PDict [(str ''id'', uid), (str ''email'', uemail)]),
                                   calls @ [TableInsert (str ''users'') row]))))))"

definition get_user :: "pystr \<Rightarrow> supabase \<Rightarrow> pyval result \<times> backend_call list" where
  "get_user user_id sb =
     (let result = table_select_single sb (str ''users'') (str ''id'') (PStr user_id);
          calls = [TableSelectSingle (str ''users'') (str ''id'') (PStr user_id)]
      in case py_getattr result ''error'' of
           Inl ex \<Rightarrow> (Inl ex, calls)
         | Inr error \<Rightarrow>
             if truthy error then
               (case py_getattr error ''message'' of
                  Inl ex \<Rightarrow> (Inl ex, calls)
                | Inr detail \<Rightarrow> (Inl (HTTPException HTTP_404_NOT_FOUND detail), calls))
             else (case py_getattr result ''data'' of
                     Inl ex \<Rightarrow> (Inl ex, calls)
                   | Inr data \<Rightarrow> (Inr data, calls)))"

section \<open>Backend client factory (app/database.py)\<close>

text \<open>
  The process as the factory sees it: the environment variables, whether the \<^verbatim>\<open>supabase\<close>
  package can be imported, the cache that \<^verbatim>\<open>lru_cache\<close> keeps for the argument-less call,
  and the number of client objects constructed so far (the next object's identity).
\<close>

record handle =
  handle_id :: nat
  supabase_url :: pystr
  supabase_key :: pystr

record process =
  environ :: "string \<Rightarrow> pystr option"
  supabase_installed :: bool
  lru_cache :: "handle option"
  objects_created :: nat

definition missing_configuration :: pystr where
  "missing_configuration =
     str ''SUPABASE_URL and SUPABASE_ANON_KEY must be set in the environment.''"

definition missing_dependency :: pystr where
  "missing_dependency =
     str (''supabase-py is required for database operations. Please install it via ''
          @ [CHR 0x27] @ ''pip install supabase-py'' @ [CHR 0x27] @ ''.'')"

text \<open>\<^verbatim>\<open>create_client(url, key)\<close> of the library: a new client object.\<close>

definition create_client :: "pystr \<Rightarrow> pystr \<Rightarrow> process \<Rightarrow> handle \<times> process" where
  "create_client url key p =
     (\<lparr>handle_id = objects_created p, supabase_url = url, supabase_key = key\<rparr>,
      p\<lparr>objects_created := Suc (objects_created p)\<rparr>)"

text \<open>
  The body of \<^verbatim>\<open>get_supabase_client\<close>. \<^verbatim>\<open>os.getenv\<close> gives \<^verbatim>\<open>None\<close> for an unset variable,
  and \<^verbatim>\<open>not url\<close> holds for \<^verbatim>\<open>None\<close> and for the empty string.
\<close>

definition get_supabase_client_body :: "process \<Rightarrow> handle result \<times> process" where
  "get_supabase_client_body p =
     (case environ p ''SUPABASE_URL'' of
        None \<Rightarrow> (Inl (RuntimeError missing_configuration), p)
      | Some url \<Rightarrow>
          (case environ p ''SUPABASE_ANON_KEY'' of
             None \<Rightarrow> (Inl (RuntimeError missing_configuration), p)
           | Some key \<Rightarrow>
               if url = [] \<or> key = [] then (Inl (RuntimeError missing_configuration), p)
               else if \<not> supabase_installed p then (Inl (RuntimeError missing_dependency), p)
               else (case create_client url key p of (h, p') \<Rightarrow> (Inr h, p'))))"

text \<open>
  \<^verbatim>\<open>@lru_cache()\<close>: a stored result is returned without running the body; a result is
  stored when the body returns, and nothing is stored when it raises.
\<close>

definition get_supabase_client :: "process \<Rightarrow> handle result \<times> process" where
  "get_supabase_client p =
     (case lru_cache p of
        Some h \<Rightarrow> (Inr h, p)
      | None \<Rightarrow>
          (case get_supabase_client_body p of
             (Inl ex, p') \<Rightarrow> (Inl ex, p')
           | (Inr h, p') \<Rightarrow> (Inr h, p'\<lparr>lru_cache := Some h\<rparr>)))"

definition get_supabase :: "process \<Rightarrow> handle result \<times> process" where
  "get_supabase p = get_supabase_client p"

text \<open>A process at start, and the process after \<open>n\<close> invocations of the constructor.\<close>

definition start :: "(string \<Rightarrow> pystr option) \<Rightarrow> bool \<Rightarrow> process" where
  "start env installed =
     \<lparr>environ = env, supabase_installed = installed, lru_cache = None, objects_created = 0\<rparr>"

fun invocations :: "nat \<Rightarrow> process \<Rightarrow> process" where
  "invocations 0 p = p"
| "invocations (Suc n) p = invocations n (snd (get_supabase p))"

definition configured :: "(string \<Rightarrow> pystr option) \<Rightarrow> bool" where
  "configured env =
     (case (env ''SUPABASE_URL'', env ''SUPABASE_ANON_KEY'') of
        (Some url, Some key) \<Rightarrow> url \<noteq> [] \<and> key \<noteq> []
      | _ \<Rightarrow> False)"

section \<open>The create-user route (app/users.py)\<close>

text \<open>
  \<^verbatim>\<open>POST /users/\<close> as the framework serves it. The parameter \<^verbatim>\<open>supabase=Depends(get_supabase)\<close>
  is resolved first: the framework calls \<^verbatim>\<open>get_supabase\<close>, and an exception of that call
  leaves the route unhandled. Then the body is validated against \<^verbatim>\<open>UserCreate\<close>, and the
  handler runs on a valid body only. \<open>sb\<close> is the backend that the handle reaches.
\<close>

definition post_users :: "pyval \<Rightarrow> process \<Rightarrow> supabase \<Rightarrow> (pyval result \<times> backend_call list) \<times> process" where
  "post_users body proc sb =
     (case get_supabase proc of
        (Inl ex, proc') \<Rightarrow> ((Inl ex, []), proc')
      | (Inr h, proc') \<Rightarrow>
          (case UserCreate_validate body of
             Inl ex \<Rightarrow> ((Inl ex, []), proc')
           | Inr user \<Rightarrow> (create_user user sb, proc')))"

section \<open>Gateway front door (app/main.py)\<close>

subsection \<open>Reverse proxy\<close>








subsection \<open>Text ingestion\<close>

record TextData =
  text' :: pystr
  timestamp :: pystr
  source :: pystr

definition TextData_validate :: "pyval \<Rightarrow> TextData result" where
  "TextData_validate body =
     (case body of
        PDict kvs \<Rightarrow>
          (case (map_of kvs (str ''text''), map_of kvs (str ''timestamp''),
                 map_of kvs (str ''source'')) of
             (Some (PStr t), Some (PStr ts), Some (PStr src)) \<Rightarrow>
               Inr \<lparr>text' = t, timestamp = ts, source = src\<rparr>
           | _ \<Rightarrow> Inl RequestValidationError)
      | _ \<Rightarrow> Inl RequestValidationError)"

text \<open>
  The server as the handler sees it: the wall clock \<open>now\<close> (in microseconds), the time
  that passes after each reading of the clock (\<open>elapses\<close>, none when the list is
  exhausted), the lines written to standard output, and \<open>stdout_error\<close>, which tells for
  a line whether writing it raises, and then the \<^verbatim>\<open>str\<close> of the exception.
\<close>

record server =
  now :: nat
  elapses :: "nat list"
  stdout :: "pystr list"
  stdout_error :: "pystr \<Rightarrow> pystr option"

definition datetime_now :: "server \<Rightarrow> nat \<times> server" where
  "datetime_now s =
     (now s,
      case elapses s of
        [] \<Rightarrow> s
      | d # ds \<Rightarrow> s\<lparr>now := now s + d, elapses := ds\<rparr>)"

definition py_print :: "pystr \<Rightarrow> server \<Rightarrow> pystr option \<times> server" where
  "py_print line s =
     (case stdout_error s line of
        Some msg \<Rightarrow> (Some msg, s)
      | None \<Rightarrow> (None, s\<lparr>stdout := stdout s @ [line]\<rparr>))"

text \<open>Several \<^verbatim>\<open>print\<close> statements in a row: the first that raises ends the row.\<close>

fun prints :: "pystr list \<Rightarrow> server \<Rightarrow> pystr option \<times> server" where
  "prints [] s = (None, s)"
| "prints (line # rest) s =
     (case py_print line s of
        (Some msg, s') \<Rightarrow> (Some msg, s')
      | (None, s') \<Rightarrow> prints rest s')"

text \<open>The literals of the handler, as code points.\<close>

definition rule_line :: pystr where
  "rule_line = replicate 50 61"

definition header_line :: pystr where
  "header_line = [128221, 32, 70, 82, 79, 78, 84, 69, 78, 68, 50640, 49436, 32, 51204, 49569,
                  46108, 32, 45936, 51060, 53552, 58]"

definition text_prefix :: pystr where
  "text_prefix = [128196, 32, 53581, 49828, 53944, 58, 32]"

definition timestamp_prefix :: pystr where
  "timestamp_prefix = [9200, 32, 53440, 51076, 49828, 53484, 54532, 58, 32]"

definition source_prefix :: pystr where
  "source_prefix = [128279, 32, 49548, 49828, 58, 32]"

definition processed_prefix :: pystr where
  "processed_prefix = [128336, 32, 52376, 47532, 32, 49884, 44036, 58, 32]"

definition success_message :: pystr where
  "success_message = [45936, 51060, 53552, 44032, 32, 49457, 44277, 51201, 51004, 47196, 32,
                      52376, 47532, 46104, 50632, 49845, 45768, 45796]"

definition error_prefix :: pystr where
  "error_prefix = [10060, 32, 50724, 47448, 32, 48156, 49373, 58, 32]"

definition error_detail_prefix :: pystr where
  "error_detail_prefix = [45936, 51060, 53552, 32, 52376, 47532, 32, 51473, 32, 50724, 47448,
                          44032, 32, 48156, 49373, 54664, 49845, 45768, 45796, 58, 32]"

text \<open>
  The \<^verbatim>\<open>try\<close> block of \<^verbatim>\<open>process_text\<close>. \<open>isoformat\<close> is \<^verbatim>\<open>datetime.isoformat\<close>, the
  rendering of a clock reading. \<open>Inl msg\<close> stands for an exception \<open>e\<close> raised in the
  block, with \<open>msg\<close> its \<^verbatim>\<open>str(e)\<close>, which is all the handler uses of it.
\<close>

definition process_text_try :: "(nat \<Rightarrow> pystr) \<Rightarrow> TextData \<Rightarrow> server \<Rightarrow> (pystr + pyval) \<times> server" where
  "process_text_try isoformat data s =
     (case prints [rule_line, header_line, text_prefix @ text' data,
                   timestamp_prefix @ timestamp data, source_prefix @ source data] s of
        (Some msg, s1) \<Rightarrow> (Inl msg, s1)
      | (None, s1) \<Rightarrow>
          (case datetime_now s1 of
             (logged_at, s2) \<Rightarrow>
               (case prints [processed_prefix @ isoformat logged_at, rule_line] s2 of
                  (Some msg, s3) \<Rightarrow> (Inl msg, s3)
                | (None, s3) \<Rightarrow>
                    (case datetime_now s3 of
                       (processed_at, s4) \<Rightarrow>
                         (Inr (PDict [(str ''status'', PStr (str ''success'')),
                                      (str ''message'', PStr success_message),
                                      (str ''received_text'', PStr (text' data)),
                                      (str ''processed_at'', PStr (isoformat processed_at))]),
                          s4)))))"

text \<open>
  The handler: the \<^verbatim>\<open>except Exception\<close> clause prints the error and raises the HTTP 500
  exception; when that \<^verbatim>\<open>print\<close> raises too, its exception leaves the handler.
\<close>

definition process_text :: "(nat \<Rightarrow> pystr) \<Rightarrow> TextData \<Rightarrow> server \<Rightarrow> pyval result \<times> server" where
  "process_text isoformat data s =
     (case process_text_try isoformat data s of
        (Inr response, s') \<Rightarrow> (Inr response, s')
      | (Inl msg, s') \<Rightarrow>
          (case py_print (error_prefix @ msg) s' of
             (Some msg', s'') \<Rightarrow> (Inl (OSError msg'), s'')
           | (None, s'') \<Rightarrow>
               (Inl (HTTPException 500 (PStr (error_detail_prefix @ msg))), s'')))"

text \<open>\<^verbatim>\<open>POST /process-text\<close>: the handler runs on a body that validates as \<^verbatim>\<open>TextData\<close>.\<close>

definition post_process_text :: "(nat \<Rightarrow> pystr) \<Rightarrow> pyval \<Rightarrow> server \<Rightarrow> pyval result \<times> server" where
  "post_process_text isoformat body s =
     (case TextData_validate body of
        Inl ex \<Rightarrow> (Inl ex, s)
      | Inr data \<Rightarrow> process_text isoformat data s)"

section \<open>Example backends\<close>

definition demo_user :: UserCreate where
  "demo_user = \<lparr>email = str ''ada@example.org'', password = str ''correct horse''\<rparr>"

definition demo_row :: pyval where
  "demo_row = PDict [(str ''id'', PStr (str ''u-1'')), (str ''email'', PStr (str ''ada@example.org''))]"


text \<open>
  A backend on which sign-up succeeds and the insert into the table is refused: the result
  of the insert carries an error. The query for a row answers with a not-found error.
\<close>

definition backend_insert_refused :: supabase where
  "backend_insert_refused =
     \<lparr>auth_sign_up = (\<lambda>c. PDict [(str ''user'', demo_row)]),
      table_insert = (\<lambda>t row. PDict [(str ''error'',
                              PDict [(str ''message'', PStr (str ''permission denied''))])]),
      table_select_single = (\<lambda>t c v. PObj [(''data'', PNone),
                              (''error'', PObj [(''message'', PStr (str ''Row not found''))])])\<rparr>"




text \<open>A backend whose sign-up answers with neither an error nor a user.\<close>

definition backend_empty_answer :: supabase where
  "backend_empty_answer =
     \<lparr>auth_sign_up = (\<lambda>c. PDict []),
      table_insert = (\<lambda>t row. PNone),
      table_select_single = (\<lambda>t c v. PNone)\<rparr>"

text \<open>A backend that finds the row asked for.\<close>

definition backend_row_found :: supabase where
  "backend_row_found =
     \<lparr>auth_sign_up = (\<lambda>c. PDict [(str ''user'', demo_row)]),
      table_insert = (\<lambda>t row. PNone),
      table_select_single = (\<lambda>t c v. PObj [(''data'', demo_row), (''error'', PNone)])\<rparr>"

definition short_password_body :: pyval where
  "short_password_body =
     PDict [(str ''email'', PStr (str ''ada@example.org'')), (str ''password'', PStr (str ''hunter2''))]"

section \<open>Example processes, networks and servers\<close>

definition env_unset :: "string \<Rightarrow> pystr option" where
  "env_unset = (\<lambda>name. None)"

definition env_set :: "string \<Rightarrow> pystr option" where
  "env_set = (\<lambda>name. if name = ''SUPABASE_URL'' then Some (str ''https://demo.supabase.co'')
                      else if name = ''SUPABASE_ANON_KEY'' then Some (str ''anon-key'')
                      else None)"

definition demo_handle :: handle where
  "demo_handle = \<lparr>handle_id = 0, supabase_url = str ''https://demo.supabase.co'',
                  supabase_key = str ''anon-key''\<rparr>"

definition demo_process :: process where
  "demo_process = \<lparr>environ = env_set, supabase_installed = True,
                   lru_cache = Some demo_handle, objects_created = 1\<rparr>"




definition demo_text_body :: pyval where
  "demo_text_body = PDict [(str ''text'', PStr (str ''hello'')),
                           (str ''timestamp'', PStr (str ''2024-01-01T00:00:00Z'')),
                           (str ''source'', PStr (str ''frontend''))]"

definition demo_server :: server where
  "demo_server = \<lparr>now = 1000, elapses = [5, 7], stdout = [], stdout_error = (\<lambda>line. None)\<rparr>"

text \<open>A server whose standard output refuses the header line and nothing else.\<close>

definition server_refusing_header :: server where
  "server_refusing_header =
     \<lparr>now = 1000, elapses = [5, 7], stdout = [],
      stdout_error = (\<lambda>line. if line = header_line then Some (str ''cannot encode'') else None)\<rparr>"

text \<open>
  \<^verbatim>\<open>datetime.isoformat\<close> for the readings of the first day of the epoch:
  \<^verbatim>\<open>1970-01-01THH:MM:SS\<close>, followed by \<^verbatim>\<open>.ffffff\<close> when the microseconds are not zero.
\<close>

definition two_digits :: "nat \<Rightarrow> pystr" where
  "two_digits n = [48 + n div 10 mod 10, 48 + n mod 10]"

definition six_digits :: "nat \<Rightarrow> pystr" where
  "six_digits n = [48 + n div 100000 mod 10, 48 + n div 10000 mod 10, 48 + n div 1000 mod 10,
                   48 + n div 100 mod 10, 48 + n div 10 mod 10, 48 + n mod 10]"

definition isoformat_first_day :: "nat \<Rightarrow> pystr" where
  "isoformat_first_day t =
     (let us = t mod 1000000; s = t div 1000000
      in str ''1970-01-01T'' @ two_digits (s div 3600 mod 24) @ [58]
         @ two_digits (s div 60 mod 60) @ [58] @ two_digits (s mod 60)
         @ (if us = 0 then [] else [46] @ six_digits us))"

section \<open>The invariant of the factory\<close>

text \<open>
  Either nothing is cached and no client object has been constructed, or the cached handle
  is the one object constructed, and it was constructed under a complete configuration
  with the library installed.
\<close>

definition consistent :: "process \<Rightarrow> bool" where
  "consistent p =
     (case lru_cache p of
        None \<Rightarrow> objects_created p = 0
      | Some h \<Rightarrow> configured (environ p) \<and> supabase_installed p
                  \<and> objects_created p = 1 \<and> handle_id h = 0)"

section \<open>Facts about strings\<close>

lemma str_eq_iff [simp]: "str a = str b \<longleftrightarrow> a = b"
  unfolding str_def by (simp add: inj_on_def inj_map_eq_map)

lemma length_str [simp]: "length (str s) = length s"
  by (simp add: str_def)

lemma str_Nil [simp]: "str [] = []"
  by (simp add: str_def)

lemma str_eq_Nil [simp]: "str s = [] \<longleftrightarrow> s = []"
  by (simp add: str_def)

section \<open>Create user\<close>




text \<open>
  C3. When the sign-up succeeds with a user record holding \<^verbatim>\<open>id\<close> and \<^verbatim>\<open>email\<close>,
  create-user issues the sign-up and then the insert of the row \<open>{id, email}\<close> into the
  table \<^verbatim>\<open>users\<close>, and returns exactly \<open>{id, email}\<close>, sent with status 201.
\<close>

theorem create_user_success:
  assumes "auth_sign_up sb (credentials user) = PDict r"
      and "\<not> truthy (case map_of r (str ''error'') of None \<Rightarrow> PNone | Some e \<Rightarrow> e)"
      and "map_of r (str ''user'') = Some (PDict u)"
      and "map_of u (str ''id'') = Some uid"
      and "map_of u (str ''email'') = Some uemail"
  shows "create_user user sb =
           (Inr (PDict [(str ''id'', uid), (str ''email'', uemail)]),
            [SignUp (credentials user),
             TableInsert (str ''users'') (PDict [(str ''id'', uid), (str ''email'', uemail)])])
         \<and> http_status HTTP_201_CREATED (fst (create_user user sb)) = 201"
  using assms by (simp add: create_user_def Let_def HTTP_201_CREATED_def)

theorem create_user_success_witness:
  "create_user demo_user backend_insert_refused =
     (Inr demo_row, [SignUp (credentials demo_user), TableInsert (str ''users'') demo_row])
   \<and> http_status HTTP_201_CREATED (fst (create_user demo_user backend_insert_refused)) = 201"
  using create_user_success [of backend_insert_refused demo_user
      "[(str ''user'', demo_row)]"
      "[(str ''id'', PStr (str ''u-1'')), (str ''email'', PStr (str ''ada@example.org''))]"
      "PStr (str ''u-1'')" "PStr (str ''ada@example.org'')"]
  by (simp add: backend_insert_refused_def demo_row_def HTTP_201_CREATED_def)

text \<open>
  C9. The result of the insert is never inspected: after a successful sign-up, whatever the
  insert answers (\<open>f\<close> is any behaviour of the table, also one whose result carries an
  error), create-user has issued both calls and still returns \<open>{id, email}\<close> with status
  201; its outcome does not depend on the table's answer at all.
\<close>

theorem create_user_insert_result_ignored:
  assumes "auth_sign_up sb (credentials user) = PDict r"
      and "\<not> truthy (case map_of r (str ''error'') of None \<Rightarrow> PNone | Some e \<Rightarrow> e)"
      and "map_of r (str ''user'') = Some (PDict u)"
      and "map_of u (str ''id'') = Some uid"
      and "map_of u (str ''email'') = Some uemail"
  shows "create_user user (sb\<lparr>table_insert := f\<rparr>) =
           (Inr (PDict [(str ''id'', uid), (str ''email'', uemail)]),
            [SignUp (credentials user),
             TableInsert (str ''users'') (PDict [(str ''id'', uid), (str ''email'', uemail)])])
         \<and> http_status HTTP_201_CREATED (fst (create_user user (sb\<lparr>table_insert := f\<rparr>))) = 201
         \<and> fst (create_user user (sb\<lparr>table_insert := f\<rparr>)) = fst (create_user user sb)"
  using assms by (simp add: create_user_def Let_def HTTP_201_CREATED_def)

theorem create_user_insert_result_ignored_witness:
  "table_insert backend_insert_refused (str ''users'') demo_row =
     PDict [(str ''error'', PDict [(str ''message'', PStr (str ''permission denied''))])]
   \<and> create_user demo_user (backend_insert_refused
         \<lparr>table_insert := table_insert backend_insert_refused\<rparr>) =
     (Inr demo_row, [SignUp (credentials demo_user), TableInsert (str ''users'') demo_row])
   \<and> http_status HTTP_201_CREATED (fst (create_user demo_user (backend_insert_refused
         \<lparr>table_insert := table_insert backend_insert_refused\<rparr>))) = 201"
  using create_user_insert_result_ignored [of backend_insert_refused demo_user
      "[(str ''user'', demo_row)]"
      "[(str ''id'', PStr (str ''u-1'')), (str ''email'', PStr (str ''ada@example.org''))]"
      "PStr (str ''u-1'')" "PStr (str ''ada@example.org'')"
      "table_insert backend_insert_refused"]
  by (simp add: backend_insert_refused_def demo_row_def HTTP_201_CREATED_def)

text \<open>
  C10. When the sign-up result holds no error that the test \<^verbatim>\<open>if error:\<close> accepts and
  also no user entry, or a user record without \<^verbatim>\<open>id\<close> or without \<^verbatim>\<open>email\<close>, create-user
  ends in an exception that is neither the HTTP 400 mapping nor a success: \<^verbatim>\<open>TypeError\<close>
  from subscripting \<^verbatim>\<open>None\<close>, or \<^verbatim>\<open>KeyError\<close> for the missing key. It leaves the handler
  unhandled (status 500), after the sign-up and before any insert.
\<close>

theorem create_user_missing_user_raises:
  assumes "auth_sign_up sb (credentials user) = PDict r"
      and "\<not> truthy (case map_of r (str ''error'') of None \<Rightarrow> PNone | Some e \<Rightarrow> e)"
      and "map_of r (str ''user'') = None
           \<or> (\<exists>u. map_of r (str ''user'') = Some (PDict u)
                  \<and> (map_of u (str ''id'') = None \<or> map_of u (str ''email'') = None))"
  shows "fst (create_user user sb) \<in>
           {Inl TypeError, Inl (KeyError (str ''id'')), Inl (KeyError (str ''email''))}
         \<and> snd (create_user user sb) = [SignUp (credentials user)]
         \<and> http_status HTTP_201_CREATED (fst (create_user user sb)) = 500"
  using assms
  by (auto simp add: create_user_def Let_def split: option.splits)

theorem create_user_missing_user_raises_witness:
  "auth_sign_up backend_empty_answer (credentials demo_user) = PDict []
   \<and> fst (create_user demo_user backend_empty_answer) = Inl TypeError
   \<and> snd (create_user demo_user backend_empty_answer) = [SignUp (credentials demo_user)]
   \<and> http_status HTTP_201_CREATED (fst (create_user demo_user backend_empty_answer)) = 500"
  using create_user_missing_user_raises [of backend_empty_answer demo_user "[]"]
  by (simp add: backend_empty_answer_def create_user_def)

section \<open>Fetch user\<close>

text \<open>
  C4. Fetch-user issues the one query for the row with the given id. When the result
  reports an error (\<^verbatim>\<open>result.error\<close> passes the test \<^verbatim>\<open>if result.error:\<close>), it raises the
  HTTP 404 exception whose detail is the backend's error message; a row that is not found
  is reported by the \<^verbatim>\<open>.single()\<close> query in this way, as an error (third part). When
  the result reports no error, it returns \<^verbatim>\<open>result.data\<close>, the matching row, as it is.
\<close>

theorem get_user_error_mapping:
  assumes "table_select_single sb (str ''users'') (str ''id'') (PStr user_id) = res"
  shows "(\<forall>e m. py_getattr res ''error'' = Inr e \<and> truthy e \<and> py_getattr e ''message'' = Inr m \<longrightarrow>
            get_user user_id sb =
              (Inl (HTTPException 404 m), [TableSelectSingle (str ''users'') (str ''id'') (PStr user_id)])
            \<and> http_status 200 (fst (get_user user_id sb)) = 404)
       \<and> (\<forall>e d. py_getattr res ''error'' = Inr e \<and> \<not> truthy e \<and> py_getattr res ''data'' = Inr d \<longrightarrow>
            get_user user_id sb =
              (Inr d, [TableSelectSingle (str ''users'') (str ''id'') (PStr user_id)]))
       \<and> (\<forall>failure m. res = single_result [] failure \<and> truthy failure
              \<and> py_getattr failure ''message'' = Inr m \<longrightarrow>
            get_user user_id sb =
              (Inl (HTTPException 404 m), [TableSelectSingle (str ''users'') (str ''id'') (PStr user_id)])
            \<and> http_status 200 (fst (get_user user_id sb)) = 404)
       \<and> (\<forall>row failure. res = single_result [row] failure \<longrightarrow>
            get_user user_id sb =
              (Inr row, [TableSelectSingle (str ''users'') (str ''id'') (PStr user_id)]))"
  using assms by (simp add: get_user_def Let_def HTTP_404_NOT_FOUND_def single_result_def)

theorem get_user_error_mapping_witness:
  "get_user (str ''nonexistent'') backend_insert_refused =
     (Inl (HTTPException 404 (PStr (str ''Row not found''))),
      [TableSelectSingle (str ''users'') (str ''id'') (PStr (str ''nonexistent''))])
   \<and> http_status 200 (fst (get_user (str ''nonexistent'') backend_insert_refused)) = 404
   \<and> get_user (str ''u-1'') backend_row_found =
     (Inr demo_row, [TableSelectSingle (str ''users'') (str ''id'') (PStr (str ''u-1''))])"
  using get_user_error_mapping [of backend_insert_refused "str ''nonexistent''"
          "single_result [] (PObj [(''message'', PStr (str ''Row not found''))])"]
        get_user_error_mapping [of backend_row_found "str ''u-1''"
          "single_result [demo_row] PNone"]
  by (simp add: backend_insert_refused_def backend_row_found_def single_result_def)

section \<open>Validation of the create-user request\<close>

text \<open>
  C5, as amended. A \<^verbatim>\<open>POST /users/\<close> whose \<^verbatim>\<open>password\<close> is a string of fewer than 8
  characters issues no backend call, neither sign-up nor insert. When the backend handle
  is available (\<^verbatim>\<open>get_supabase\<close> returns one, cached or newly constructed), the request is
  refused by validation and answered with a client-error status (422); when
  \<^verbatim>\<open>get_supabase\<close> raises, its exception is the outcome of the route.
\<close>

theorem post_users_short_password:
  assumes "map_of kvs (str ''password'') = Some (PStr p)"
      and "length p < 8"
  shows "snd (fst (post_users (PDict kvs) proc sb)) = []
         \<and> (\<forall>h proc'. get_supabase proc = (Inr h, proc') \<longrightarrow>
               post_users (PDict kvs) proc sb = ((Inl RequestValidationError, []), proc')
               \<and> 400 \<le> http_status HTTP_201_CREATED (fst (fst (post_users (PDict kvs) proc sb)))
               \<and> http_status HTTP_201_CREATED (fst (fst (post_users (PDict kvs) proc sb))) < 500)
         \<and> (\<forall>ex proc'. get_supabase proc = (Inl ex, proc') \<longrightarrow>
               post_users (PDict kvs) proc sb = ((Inl ex, []), proc'))"
  using assms
  by (simp add: post_users_def UserCreate_validate_def
           split: prod.splits sum.splits option.splits pyval.splits)

theorem post_users_short_password_witness:
  "length (str ''hunter2'') < 8
   \<and> get_supabase demo_process = (Inr demo_handle, demo_process)
   \<and> post_users short_password_body demo_process backend_row_found =
       ((Inl RequestValidationError, []), demo_process)
   \<and> 400 \<le> http_status HTTP_201_CREATED
              (fst (fst (post_users short_password_body demo_process backend_row_found)))
   \<and> http_status HTTP_201_CREATED
        (fst (fst (post_users short_password_body demo_process backend_row_found))) < 500"
proof -
  have cached: "get_supabase demo_process = (Inr demo_handle, demo_process)"
    by (simp add: get_supabase_def get_supabase_client_def demo_process_def)
  show ?thesis
    using cached
          post_users_short_password [of
            "[(str ''email'', PStr (str ''ada@example.org'')), (str ''password'', PStr (str ''hunter2''))]"
            "str ''hunter2''" demo_process backend_row_found]
    by (simp add: short_password_body_def)
qed

text \<open>
  C5 as it was stated fails in a process without the configuration: the dependency is
  resolved before the body is validated, so the short password is answered with the
  configuration error of the factory, a server error, and not with a client error.
\<close>

theorem post_users_unconfigured_counterexample:
  "short_password_body =
     PDict [(str ''email'', PStr (str ''ada@example.org'')), (str ''password'', PStr (str ''hunter2''))]
   \<and> length (str ''hunter2'') < 8
   \<and> post_users short_password_body (start env_unset True) backend_row_found =
       ((Inl (RuntimeError missing_configuration), []), start env_unset True)
   \<and> http_status HTTP_201_CREATED
        (fst (fst (post_users short_password_body (start env_unset True) backend_row_found))) = 500"
  by (simp add: post_users_def get_supabase_def get_supabase_client_def
        get_supabase_client_body_def start_def env_unset_def short_password_body_def)

section \<open>Backend client factory\<close>

lemma start_simps [simp]:
  "environ (start env installed) = env"
  "supabase_installed (start env installed) = installed"
  "lru_cache (start env installed) = None"
  "objects_created (start env installed) = 0"
  by (simp_all add: start_def)

lemma get_supabase_consistent:
  "consistent p \<Longrightarrow> consistent (snd (get_supabase p))
     \<and> environ (snd (get_supabase p)) = environ p
     \<and> supabase_installed (snd (get_supabase p)) = supabase_installed p"
  by (auto simp: consistent_def get_supabase_def get_supabase_client_def get_supabase_client_body_def
        create_client_def configured_def split: option.splits if_splits)

lemma invocations_consistent:
  "consistent p \<Longrightarrow> consistent (invocations n p)
     \<and> environ (invocations n p) = environ p
     \<and> supabase_installed (invocations n p) = supabase_installed p"
proof (induction n arbitrary: p)
  case 0
  then show ?case by simp
next
  case (Suc n)
  from get_supabase_consistent [OF Suc.prems] Suc.IH [of "snd (get_supabase p)"]
  show ?case by simp
qed

lemma consistent_start: "consistent (start env installed)"
  by (simp add: consistent_def)

lemma messages_differ: "missing_configuration \<noteq> missing_dependency"
  by (simp add: missing_configuration_def missing_dependency_def)

lemma not_configured_iff:
  "\<not> configured env \<longleftrightarrow>
     env ''SUPABASE_URL'' = None \<or> env ''SUPABASE_URL'' = Some []
     \<or> env ''SUPABASE_ANON_KEY'' = None \<or> env ''SUPABASE_ANON_KEY'' = Some []"
  by (auto simp: configured_def split: option.splits)

lemma uncached_failures:
  assumes "lru_cache p = None"
  shows "\<not> configured (environ p) \<longrightarrow>
           get_supabase_client p = (Inl (RuntimeError missing_configuration), p)"
    and "configured (environ p) \<and> \<not> supabase_installed p \<longrightarrow>
           get_supabase_client p = (Inl (RuntimeError missing_dependency), p)"
  using assms
  by (auto simp: get_supabase_client_def get_supabase_client_body_def configured_def
           split: option.splits)

text \<open>
  C6. In a process that started with environment \<open>env\<close>, at every invocation of the
  constructor (after any number \<open>n\<close> of earlier ones): when one of the two variables is
  unset or empty, the invocation raises the configuration error, nothing is cached and no
  client object has been constructed; when both are set and the library cannot be
  imported, it raises the dependency error, again with no handle; and the two messages
  differ. The configuration is checked before the import.
\<close>

theorem constructor_failures:
  "((env ''SUPABASE_URL'' = None \<or> env ''SUPABASE_URL'' = Some []
      \<or> env ''SUPABASE_ANON_KEY'' = None \<or> env ''SUPABASE_ANON_KEY'' = Some []) \<longrightarrow>
       get_supabase_client (invocations n (start env installed)) =
         (Inl (RuntimeError missing_configuration), invocations n (start env installed))
       \<and> lru_cache (invocations n (start env installed)) = None
       \<and> objects_created (invocations n (start env installed)) = 0)
   \<and> (configured env \<and> \<not> installed \<longrightarrow>
       get_supabase_client (invocations n (start env installed)) =
         (Inl (RuntimeError missing_dependency), invocations n (start env installed))
       \<and> lru_cache (invocations n (start env installed)) = None
       \<and> objects_created (invocations n (start env installed)) = 0)
   \<and> missing_configuration \<noteq> missing_dependency"
proof -
  let ?p = "invocations n (start env installed)"
  have inv: "consistent ?p" "environ ?p = env" "supabase_installed ?p = installed"
    using invocations_consistent [OF consistent_start, of n env installed] by simp_all
  have none: "\<not> (configured env \<and> installed) \<Longrightarrow> lru_cache ?p = None \<and> objects_created ?p = 0"
    using inv by (auto simp: consistent_def split: option.splits)
  show ?thesis
    using none uncached_failures [of ?p] inv(2,3) messages_differ not_configured_iff [of env]
    by auto
qed

theorem constructor_failures_witness:
  "env_unset ''SUPABASE_URL'' = None
   \<and> get_supabase_client (invocations (Suc (Suc 0)) (start env_unset True)) =
       (Inl (RuntimeError missing_configuration), invocations (Suc (Suc 0)) (start env_unset True))
   \<and> lru_cache (invocations (Suc (Suc 0)) (start env_unset True)) = None
   \<and> objects_created (invocations (Suc (Suc 0)) (start env_unset True)) = 0
   \<and> configured env_set
   \<and> get_supabase_client (invocations (Suc (Suc 0)) (start env_set False)) =
       (Inl (RuntimeError missing_dependency), invocations (Suc (Suc 0)) (start env_set False))
   \<and> lru_cache (invocations (Suc (Suc 0)) (start env_set False)) = None
   \<and> objects_created (invocations (Suc (Suc 0)) (start env_set False)) = 0"
proof -
  have unset: "env_unset ''SUPABASE_URL'' = None"
    by (simp add: env_unset_def)
  have set: "configured env_set"
    by (simp add: env_set_def configured_def)
  show ?thesis
    using unset set
          constructor_failures [of env_unset "Suc (Suc 0)" True]
          constructor_failures [of env_set "Suc (Suc 0)" False]
    by simp
qed

lemma success_cached:
  assumes "get_supabase_client p = (Inr h, p')"
  shows "lru_cache p' = Some h"
  using assms
  by (auto simp: get_supabase_client_def get_supabase_client_body_def create_client_def
           split: option.splits if_splits)

lemma cached_fixed:
  assumes "lru_cache p = Some h"
  shows "invocations n p = p"
  using assms
  by (induction n) (simp_all add: get_supabase_def get_supabase_client_def)

text \<open>
  C7. Once an invocation of the constructor has returned a handle \<open>h\<close>, every later
  invocation (after any number \<open>n\<close> of further ones) returns the same \<open>h\<close> and constructs
  nothing; and a process never holds more than one constructed handle.
\<close>

theorem constructor_idempotent:
  assumes "get_supabase_client p = (Inr h, p')"
  shows "get_supabase_client (invocations n p') = (Inr h, p')
         \<and> get_supabase (invocations n p') = (Inr h, p')
         \<and> objects_created (invocations n p') = objects_created p'
         \<and> objects_created (invocations m (start env installed)) \<le> 1"
proof -
  have c: "lru_cache p' = Some h" using success_cached [OF assms] .
  have f: "invocations n p' = p'" using cached_fixed [OF c] .
  have one: "objects_created (invocations m (start env installed)) \<le> 1"
    using invocations_consistent [OF consistent_start, of m env installed]
    by (auto simp: consistent_def split: option.splits)
  show ?thesis using c f one by (simp add: get_supabase_def get_supabase_client_def)
qed

theorem constructor_idempotent_witness:
  "get_supabase_client (start env_set True) = (Inr demo_handle, demo_process)
   \<and> get_supabase_client (invocations (Suc (Suc 0)) demo_process) = (Inr demo_handle, demo_process)
   \<and> get_supabase (invocations (Suc (Suc 0)) demo_process) = (Inr demo_handle, demo_process)
   \<and> objects_created (invocations (Suc (Suc 0)) demo_process) = 1"
proof -
  have first: "get_supabase_client (start env_set True) = (Inr demo_handle, demo_process)"
    by (simp add: get_supabase_client_def get_supabase_client_body_def create_client_def
          start_def env_set_def demo_handle_def demo_process_def)
  show ?thesis
    using first constructor_idempotent [OF first, of "Suc (Suc 0)" 0 env_set True]
    by (simp add: demo_process_def)
qed

section \<open>Reverse proxy\<close>



section \<open>Text ingestion\<close>

text \<open>
  When writing a line of the log raises, the \<^verbatim>\<open>except\<close> clause answers with the HTTP 500
  exception that carries the diagnostic message.
\<close>

lemma process_text_logging_failure:
  "fst (post_process_text isoformat_first_day demo_text_body server_refusing_header) =
     Inl (HTTPException 500 (PStr (error_detail_prefix @ str ''cannot encode'')))"
  by (simp add: post_process_text_def TextData_validate_def process_text_def
        process_text_try_def py_print_def demo_text_body_def server_refusing_header_def
        rule_line_def header_line_def error_prefix_def)

text \<open>
  C8. For every body with string fields \<^verbatim>\<open>text\<close>, \<^verbatim>\<open>timestamp\<close> and \<^verbatim>\<open>source\<close>, on a server
  whose standard output takes the log lines, \<^verbatim>\<open>POST /process-text\<close> returns the response
  with \<^verbatim>\<open>status\<close> equal to \<^verbatim>\<open>"success"\<close>, \<^verbatim>\<open>received_text\<close> equal to the text received, and
  \<^verbatim>\<open>processed_at\<close> the rendering of the clock reading taken after the log was written
  (the second reading of the handler), which is no earlier than the clock at arrival.
\<close>

theorem process_text_success:
  assumes "map_of kvs (str ''text'') = Some (PStr t)"
      and "map_of kvs (str ''timestamp'') = Some (PStr ts)"
      and "map_of kvs (str ''source'') = Some (PStr src)"
      and "\<forall>line. stdout_error s line = None"
  shows "fst (post_process_text isoformat (PDict kvs) s) =
           Inr (PDict [(str ''status'', PStr (str ''success'')),
                       (str ''message'', PStr success_message),
                       (str ''received_text'', PStr t),
                       (str ''processed_at'',
                        PStr (isoformat (now s + (case elapses s of [] \<Rightarrow> 0 | d # ds \<Rightarrow> d))))])
         \<and> now s \<le> now s + (case elapses s of [] \<Rightarrow> 0 | d # ds \<Rightarrow> d)
         \<and> http_status 200 (fst (post_process_text isoformat (PDict kvs) s)) = 200"
  using assms
  by (simp add: post_process_text_def TextData_validate_def process_text_def
        process_text_try_def py_print_def datetime_now_def split: list.splits)

theorem process_text_success_witness:
  "fst (post_process_text isoformat_first_day demo_text_body demo_server) =
     Inr (PDict [(str ''status'', PStr (str ''success'')),
                 (str ''message'', PStr success_message),
                 (str ''received_text'', PStr (str ''hello'')),
                 (str ''processed_at'', PStr (isoformat_first_day 1005))])
   \<and> now demo_server \<le> 1005
   \<and> http_status 200 (fst (post_process_text isoformat_first_day demo_text_body demo_server)) = 200"
  using process_text_success [of
          "[(str ''text'', PStr (str ''hello'')),
            (str ''timestamp'', PStr (str ''2024-01-01T00:00:00Z'')),
            (str ''source'', PStr (str ''frontend''))]"
          "str ''hello''" "str ''2024-01-01T00:00:00Z''" "str ''frontend''"
          demo_server isoformat_first_day]
  by (simp add: demo_text_body_def demo_server_def)

end
